theory Spec2Isabelle
  imports Complex_Main "HOL-Library.Char_ord" "HOL-Library.List_Lexorder" "HOL-Library.Option_ord"
begin

section \<open>JavaScript values, errors and callbacks\<close>

text \<open>
  The user controller is written in callback style: every operation ends by calling its
  callback with an error-first argument list, or by throwing before it does. The model
  returns what the callback received, together with the new state of the store and of the
  mailer. Strings are ASCII strings.
\<close>

datatype js_value = JUndefined | JNull | JBoolean bool | JNumber int | JString string

fun typeof :: "js_value \<Rightarrow> string" where
  "typeof JUndefined = ''undefined''"
| "typeof JNull = ''object''"
| "typeof (JBoolean b) = ''boolean''"
| "typeof (JNumber n) = ''number''"
| "typeof (JString s) = ''string''"

text \<open>
  An error argument is either an object literal \<open>{ message: ... }\<close> built by the
  controller, or an error object of a collaborator (store, token verifier, mailer) handed
  on unchanged.
\<close>

datatype err = Message string | Upstream string

text \<open>
  \<open>Callback e r\<close>: the callback was called with error argument \<open>e\<close> (\<open>None\<close> is
  \<open>null\<close> or a missing argument) and result \<open>r\<close> (\<open>None\<close> is \<open>null\<close> or a missing
  argument). \<open>Throws n\<close>: an exception named \<open>n\<close> was thrown and the callback was never
  called.
\<close>

datatype 'a callback = Callback "err option" "'a option" | Throws string

definition upper_case :: string where
  "upper_case = ''ABCDEFGHIJKLMNOPQRSTUVWXYZ''"

definition lower_case :: string where
  "lower_case = ''abcdefghijklmnopqrstuvwxyz''"

definition to_lower_char :: "char \<Rightarrow> char" where
  "to_lower_char ch = (case map_of (zip upper_case lower_case) ch of Some l \<Rightarrow> l | None \<Rightarrow> ch)"

definition toLowerCase :: "string \<Rightarrow> string" where
  "toLowerCase s = map to_lower_char s"

section \<open>The user document and the store\<close>

type_synonym user_id = nat

record profile =
  name :: string

record user =
  uid :: user_id
  email :: string
  password :: "string option"
  verified :: bool
  profile :: "profile option"
  completedProfile :: bool
  lastUpdated :: nat
  teamCode :: "string option"
  code :: "string option"
  title :: "string option"

text \<open>
  The query and update objects the controller hands to the model layer. A regular
  expression is kept as its pattern; all of them carry the flag \<open>i\<close>.
\<close>

datatype query =
    Eq_id user_id
  | Eq_email string
  | Eq_verified bool
  | Re_email string
  | Re_profile_name string
  | Re_teamCode string
  | Conj "query list"
  | Disj "query list"

datatype assign =
    Set_verified bool
  | Set_password string
  | Set_profile profile
  | Set_completedProfile bool
  | Set_lastUpdated nat
  | Set_code "string option"
  | Set_title "string option"

datatype store_op =
    FindOne query
  | Find query bool nat nat
  | Count query
  | Save user
  | FindOneAndUpdate query "assign list"

datatype mail =
    VerificationEmail string string
  | PasswordResetEmail string string
  | PasswordChangedEmail string

text \<open>
  The collaborators of the controller that are not part of it: the validator library, the
  password hashing and token functions of the user model, the regular expressions of the
  runtime, the clock, the mailer's answer, and the errors the store may answer an operation
  with. \<open>regexp_i p\<close> is \<open>new RegExp(p, 'i')\<close>: \<open>None\<close> when the constructor throws
  a SyntaxError, otherwise the test of the expression on a string.
\<close>

record collaborators =
  isEmail :: "string \<Rightarrow> bool"
  generateHash :: "string \<Rightarrow> string"
  checkHash :: "string \<Rightarrow> string \<Rightarrow> bool"
  regexp_i :: "string \<Rightarrow> (string \<Rightarrow> bool) option"
  authTokenFor :: "user_id \<Rightarrow> string"
  emailTokenFor :: "string \<Rightarrow> string"
  tempTokenFor :: "user_id \<Rightarrow> string"
  verifyAuthToken :: "string \<Rightarrow> err option \<times> user_id option"
  verifyEmailVerificationToken :: "string \<Rightarrow> err option \<times> string option"
  verifyTempAuthToken :: "string \<Rightarrow> err option \<times> user_id option"
  validateProfile :: "profile \<Rightarrow> err option"
  now :: nat
  mailerAnswer :: "string \<Rightarrow> string \<Rightarrow> err option \<times> string option"
  store_fault :: "store_op \<Rightarrow> err option"

text \<open>
  The state: the documents of the users collection in their natural order, the next fresh
  document id, the operations the store was asked to run and the mails handed to the mailer
  (both oldest first).
\<close>

record state =
  docs :: "user list"
  fresh :: user_id
  oplog :: "store_op list"
  outbox :: "mail list"

definition profile_name :: "user \<Rightarrow> string option" where
  "profile_name u = map_option name (profile u)"

definition re_test :: "collaborators \<Rightarrow> string \<Rightarrow> string option \<Rightarrow> bool" where
  "re_test c p field =
     (case field of None \<Rightarrow> False
      | Some s \<Rightarrow> (case regexp_i c p of None \<Rightarrow> False | Some t \<Rightarrow> t s))"

fun matches :: "collaborators \<Rightarrow> query \<Rightarrow> user \<Rightarrow> bool" where
  "matches c (Eq_id i) u = (uid u = i)"
| "matches c (Eq_email e) u = (email u = e)"
| "matches c (Eq_verified b) u = (verified u = b)"
| "matches c (Re_email p) u = re_test c p (Some (email u))"
| "matches c (Re_profile_name p) u = re_test c p (profile_name u)"
| "matches c (Re_teamCode p) u = re_test c p (teamCode u)"
| "matches c (Conj qs) u = list_all (\<lambda>q. matches c q u) qs"
| "matches c (Disj qs) u = list_ex (\<lambda>q. matches c q u) qs"

fun apply_assign :: "assign \<Rightarrow> user \<Rightarrow> user" where
  "apply_assign (Set_verified b) u = u\<lparr>verified := b\<rparr>"
| "apply_assign (Set_password h) u = u\<lparr>password := Some h\<rparr>"
| "apply_assign (Set_profile p) u = u\<lparr>profile := Some p\<rparr>"
| "apply_assign (Set_completedProfile b) u = u\<lparr>completedProfile := b\<rparr>"
| "apply_assign (Set_lastUpdated t) u = u\<lparr>lastUpdated := t\<rparr>"
| "apply_assign (Set_code v) u = u\<lparr>code := v\<rparr>"
| "apply_assign (Set_title v) u = u\<lparr>title := v\<rparr>"

definition apply_set :: "assign list \<Rightarrow> user \<Rightarrow> user" where
  "apply_set as u = fold apply_assign as u"

text \<open>
  Modelled from the spec: the schema of the user model is not among the sources. The
  password hash is never returned to clients: a query leaves the password out of the
  documents it answers with unless it selects it (the controller writes
  \<open>.select('+password')\<close> where it needs the hash).
\<close>

definition project :: "bool \<Rightarrow> user \<Rightarrow> user" where
  "project with_password u = (if with_password then u else u\<lparr>password := None\<rparr>)"

definition logged :: "store_op \<Rightarrow> state \<Rightarrow> state" where
  "logged op st = st\<lparr>oplog := oplog st @ [op]\<rparr>"

definition findOne :: "collaborators \<Rightarrow> query \<Rightarrow> bool \<Rightarrow> state \<Rightarrow> (err + user option) \<times> state" where
  "findOne c q with_password st =
     (case store_fault c (FindOne q) of
        Some e \<Rightarrow> (Inl e, logged (FindOne q) st)
      | None \<Rightarrow>
          (Inr (map_option (project with_password) (find (matches c q) (docs st))),
           logged (FindOne q) st))"

fun update_first :: "(user \<Rightarrow> bool) \<Rightarrow> (user \<Rightarrow> user) \<Rightarrow> user list \<Rightarrow> user list" where
  "update_first P f [] = []"
| "update_first P f (u # us) = (if P u then f u # us else u # update_first P f us)"

text \<open>
  \<open>findOneAndUpdate\<close> changes the first matching document and answers with the document
  as it was before (\<open>new: false\<close>, the default) or after the update (\<open>new: true\<close>), or
  with \<open>null\<close> when no document matches.
\<close>

definition findOneAndUpdate ::
  "collaborators \<Rightarrow> query \<Rightarrow> assign list \<Rightarrow> bool \<Rightarrow> state \<Rightarrow> (err + user option) \<times> state" where
  "findOneAndUpdate c q as new st =
     (case store_fault c (FindOneAndUpdate q as) of
        Some e \<Rightarrow> (Inl e, logged (FindOneAndUpdate q as) st)
      | None \<Rightarrow>
          (Inr (map_option (\<lambda>u. project False (if new then apply_set as u else u))
                  (find (matches c q) (docs st))),
           logged (FindOneAndUpdate q as)
             (st\<lparr>docs := update_first (matches c q) (apply_set as) (docs st)\<rparr>)))"

definition save :: "collaborators \<Rightarrow> user \<Rightarrow> state \<Rightarrow> err option \<times> state" where
  "save c u st =
     (case store_fault c (Save u) of
        Some e \<Rightarrow> (Some e, logged (Save u) st)
      | None \<Rightarrow> (None, logged (Save u) (st\<lparr>docs := docs st @ [u]\<rparr>)))"

definition send_mail :: "mail \<Rightarrow> state \<Rightarrow> state" where
  "send_mail m st = st\<lparr>outbox := outbox st @ [m]\<rparr>"

text \<open>
  \<open>find\<close> with its cursor options: the matching documents, sorted by profile name when
  asked to (a missing name sorts first, equal names keep the store's order), then
  \<open>skip\<close> and \<open>limit\<close>, where a limit of 0 is no limit.
\<close>

definition limit_to :: "nat \<Rightarrow> 'a list \<Rightarrow> 'a list" where
  "limit_to n xs = (if n = 0 then xs else take n xs)"

definition find_docs ::
  "collaborators \<Rightarrow> query \<Rightarrow> bool \<Rightarrow> nat \<Rightarrow> nat \<Rightarrow> state \<Rightarrow> (err + user list) \<times> state" where
  "find_docs c q by_name skip limit st =
     (case store_fault c (Find q by_name skip limit) of
        Some e \<Rightarrow> (Inl e, logged (Find q by_name skip limit) st)
      | None \<Rightarrow>
          (Inr (map (project False)
                  (limit_to limit (drop skip
                     ((if by_name then sort_key profile_name else id)
                        (filter (matches c q) (docs st)))))),
           logged (Find q by_name skip limit) st))"

definition count_docs :: "collaborators \<Rightarrow> query \<Rightarrow> state \<Rightarrow> (err + nat) \<times> state" where
  "count_docs c q st =
     (case store_fault c (Count q) of
        Some e \<Rightarrow> (Inl e, logged (Count q) st)
      | None \<Rightarrow> (Inr (length (filter (matches c q) (docs st))), logged (Count q) st))"

text \<open>
  Modelled from the spec: the user model (\<open>models/User\<close>) is not among the sources. Its
  \<open>findOneByEmail\<close> looks the email up in its normalised (lower case) form; a new
  document starts unverified with a fresh id and no profile; each token generator binds
  its token to the user's id (session and temporary tokens) or email (verification token);
  \<open>checkPassword\<close> compares a candidate with the stored hash; \<open>getByToken\<close>
  verifies the session token and looks up the user bound to it.
\<close>

definition findOneByEmail :: "collaborators \<Rightarrow> string \<Rightarrow> bool \<Rightarrow> state \<Rightarrow> (err + user option) \<times> state" where
  "findOneByEmail c e with_password st = findOne c (Eq_email (toLowerCase e)) with_password st"

definition new_User :: "state \<Rightarrow> user \<times> state" where
  "new_User st =
     (\<lparr>uid = fresh st, email = [], password = None, verified = False, profile = None,
       completedProfile = False, lastUpdated = 0, teamCode = None, code = None,
       title = None\<rparr>,
      st\<lparr>fresh := Suc (fresh st)\<rparr>)"

definition generateAuthToken :: "collaborators \<Rightarrow> user \<Rightarrow> string" where
  "generateAuthToken c u = authTokenFor c (uid u)"

definition generateEmailVerificationToken :: "collaborators \<Rightarrow> user \<Rightarrow> string" where
  "generateEmailVerificationToken c u = emailTokenFor c (email u)"

definition generateTempAuthToken :: "collaborators \<Rightarrow> user \<Rightarrow> string" where
  "generateTempAuthToken c u = tempTokenFor c (uid u)"

definition checkPassword :: "collaborators \<Rightarrow> user \<Rightarrow> string \<Rightarrow> bool" where
  "checkPassword c u p = (case password u of None \<Rightarrow> False | Some h \<Rightarrow> checkHash c p h)"

definition getByToken :: "collaborators \<Rightarrow> string \<Rightarrow> state \<Rightarrow> (err + user option) \<times> state" where
  "getByToken c token st =
     (case verifyAuthToken c token of
        (Some x, decoded) \<Rightarrow> (Inl x, st)
      | (None, None) \<Rightarrow> (Inr None, st)
      | (None, Some i) \<Rightarrow> findOne c (Eq_id i) False st)"

section \<open>The controller\<close>

text \<open>
  An argument that may be missing is a string or absent (\<open>None\<close>: \<open>undefined\<close> or
  \<open>null\<close>); \<open>!x\<close> holds for an absent and for an empty string.
\<close>

definition falsy :: "string option \<Rightarrow> bool" where
  "falsy x = (case x of None \<Rightarrow> True | Some s \<Rightarrow> s = [])"

text \<open>An error argument counts as true when it is not \<open>null\<close>.\<close>

definition is_error :: "err option \<Rightarrow> bool" where
  "is_error x = (x \<noteq> None)"

text \<open>\<open>canRegister\<close> calls back with \<open>(err, valid)\<close>.\<close>

definition canRegister :: "string \<Rightarrow> string option \<Rightarrow> err option \<times> bool" where
  "canRegister e pw =
     (case pw of
        None \<Rightarrow> (Some (Message ''Password must be 6 or more characters.''), False)
      | Some p \<Rightarrow>
          if p = [] \<or> length p < 6
          then (Some (Message ''Password must be 6 or more characters.''), False)
          else (None, True))"

record login =
  login_token :: string
  login_user :: "user option"

definition loginWithToken :: "collaborators \<Rightarrow> string \<Rightarrow> state \<Rightarrow> login callback \<times> state" where
  "loginWithToken c token st =
     (case getByToken c token st of
        (Inl x, st1) \<Rightarrow> (Callback (Some x) (Some \<lparr>login_token = token, login_user = None\<rparr>), st1)
      | (Inr found, st1) \<Rightarrow> (Callback None (Some \<lparr>login_token = token, login_user = found\<rparr>), st1))"

definition loginWithPassword ::
  "collaborators \<Rightarrow> string \<Rightarrow> string option \<Rightarrow> state \<Rightarrow> login callback \<times> state" where
  "loginWithPassword c e pw st =
     (case pw of
        None \<Rightarrow> (Callback (Some (Message ''Please enter a password'')) None, st)
      | Some p \<Rightarrow>
          if p = [] \<or> length p = 0
          then (Callback (Some (Message ''Please enter a password'')) None, st)
          else if \<not> isEmail c e
          then (Callback (Some (Message ''Invalid email'')) None, st)
          else
            (case findOneByEmail c e True st of
               (Inl x, st1) \<Rightarrow> (Callback (Some x) None, st1)
             | (Inr None, st1) \<Rightarrow> (Callback (Some (Message ''We couldn't find you!'')) None, st1)
             | (Inr (Some found), st1) \<Rightarrow>
                 if \<not> checkPassword c found p
                 then (Callback (Some (Message ''That's not the right password.'')) None, st1)
                 else
                   (let token = generateAuthToken c found;
                        u = found\<lparr>password := None\<rparr>
                    in (Callback None (Some \<lparr>login_token = token, login_user = Some u\<rparr>), st1))))"

record registration =
  reg_token :: string
  reg_user :: user

text \<open>
  In \<open>createUser\<close> the password reaches \<open>generateHash\<close> only after \<open>canRegister\<close>
  has accepted it, so it is a string there.
\<close>

definition createUser ::
  "collaborators \<Rightarrow> js_value \<Rightarrow> string option \<Rightarrow> state \<Rightarrow> registration callback \<times> state" where
  "createUser c em pw st =
     (case em of
        JString e0 \<Rightarrow>
          (let e = toLowerCase e0 in
           case canRegister e pw of
             (err, valid) \<Rightarrow>
               if is_error err \<or> \<not> valid then (Callback err None, st)
               else
                 (case findOneByEmail c e False st of
                    (Inl x, st1) \<Rightarrow> (Callback (Some x) None, st1)
                  | (Inr (Some found), st1) \<Rightarrow>
                      (Callback (Some (Message ''An account for this email already exists.'')) None, st1)
                  | (Inr None, st1) \<Rightarrow>
                      (case new_User st1 of
                         (u0, st2) \<Rightarrow>
                           (let u = u0\<lparr>email := e,
                                       password := Some (generateHash c (case pw of Some p \<Rightarrow> p | None \<Rightarrow> []))\<rparr>
                            in case save c u st2 of
                                 (Some x, st3) \<Rightarrow> (Callback (Some x) None, st3)
                               | (None, st3) \<Rightarrow>
                                   (let token = generateAuthToken c u;
                                        verificationToken = generateEmailVerificationToken c u
                                    in (Callback None (Some \<lparr>reg_token = token, reg_user = u\<rparr>),
                                        send_mail (VerificationEmail e verificationToken) st3))))))
      | _ \<Rightarrow> (Callback (Some (Message ''Email must be a string.'')) None, st))"

definition getAll :: "collaborators \<Rightarrow> state \<Rightarrow> user list callback \<times> state" where
  "getAll c st =
     (case find_docs c (Conj []) False 0 0 st of
        (Inl x, st1) \<Rightarrow> (Callback (Some x) None, st1)
      | (Inr us, st1) \<Rightarrow> (Callback None (Some us), st1))"

text \<open>
  The listing. \<open>q_page\<close> and \<open>q_size\<close> are the page index and the page size as the
  non-negative integers the request denotes (\<open>parseInt\<close> of a decimal numeral);
  \<open>q_text\<close> is \<open>None\<close> when the query has no \<open>text\<close> field, and reading the length
  of \<open>undefined\<close> throws a TypeError. Counts are far below \<open>2^53\<close>, where the
  floating-point quotient and its ceiling are exact.
\<close>

record page_query =
  q_page :: nat
  q_size :: nat
  q_text :: "string option"

datatype js_number = Finite nat | Infinity | NaN

definition ceil_quotient :: "nat \<Rightarrow> nat \<Rightarrow> js_number" where
  "ceil_quotient n d =
     (if d = 0 then (if n = 0 then NaN else Infinity)
      else Finite (n div d + (if n mod d = 0 then 0 else 1)))"

record page_result =
  r_users :: "user list"
  r_page :: nat
  r_size :: nat
  totalPages :: js_number

definition getPage :: "collaborators \<Rightarrow> page_query \<Rightarrow> state \<Rightarrow> page_result callback \<times> state" where
  "getPage c q st =
     (let page = q_page q; size = q_size q in
      case q_text q of
        None \<Rightarrow> (Throws ''TypeError'', st)
      | Some searchText \<Rightarrow>
          (case (if length searchText > 0
                 then (case regexp_i c searchText of
                         None \<Rightarrow> None
                       | Some re \<Rightarrow>
                           Some (Disj [Re_email searchText, Re_profile_name searchText,
                                       Re_teamCode searchText]))
                 else Some (Conj [])) of
             None \<Rightarrow> (Throws ''SyntaxError'', st)
           | Some findQuery \<Rightarrow>
               (case find_docs c findQuery True (page * size) size st of
                  (Inl x, st1) \<Rightarrow> (Callback (Some x) None, st1)
                | (Inr us, st1) \<Rightarrow>
                    (case count_docs c findQuery st1 of
                       (Inl x, st2) \<Rightarrow> (Callback (Some x) None, st2)
                     | (Inr n, st2) \<Rightarrow>
                         (Callback None
                            (Some \<lparr>r_users = us, r_page = page, r_size = size,
                                   totalPages = ceil_quotient n size\<rparr>), st2)))))"

definition getById :: "collaborators \<Rightarrow> user_id \<Rightarrow> state \<Rightarrow> user callback \<times> state" where
  "getById c i st =
     (case findOne c (Eq_id i) False st of
        (Inl x, st1) \<Rightarrow> (Callback (Some x) None, st1)
      | (Inr found, st1) \<Rightarrow> (Callback None found, st1))"

definition updateProfileById ::
  "collaborators \<Rightarrow> user_id \<Rightarrow> profile \<Rightarrow> state \<Rightarrow> user callback \<times> state" where
  "updateProfileById c i p st =
     (case validateProfile c p of
        Some x \<Rightarrow> (Callback (Some (Message ''invalid profile'')) None, st)
      | None \<Rightarrow>
          (case findOneAndUpdate c (Conj [Eq_id i, Eq_verified True])
                  [Set_lastUpdated (now c), Set_profile p, Set_completedProfile True] True st of
             (Inl x, st1) \<Rightarrow> (Callback (Some x) None, st1)
           | (Inr found, st1) \<Rightarrow> (Callback None found, st1)))"

text \<open>
  \<open>verifyByToken\<close> receives \<open>(err, email)\<close> from the token verifier and does not look
  at \<open>err\<close>. String concatenation turns a missing email into the text \<open>undefined\<close>.
\<close>

definition js_concat_arg :: "string option \<Rightarrow> string" where
  "js_concat_arg x = (case x of None \<Rightarrow> ''undefined'' | Some s \<Rightarrow> s)"

definition verifyByToken :: "collaborators \<Rightarrow> string \<Rightarrow> state \<Rightarrow> user callback \<times> state" where
  "verifyByToken c token st =
     (case verifyEmailVerificationToken c token of
        (err, decoded) \<Rightarrow>
          (let pattern = ''^'' @ js_concat_arg decoded @ ''$'' in
           case regexp_i c pattern of
             None \<Rightarrow> (Throws ''SyntaxError'', st)
           | Some re \<Rightarrow>
               (case findOneAndUpdate c (Re_email pattern) [Set_verified True] True st of
                  (Inl x, st1) \<Rightarrow> (Callback (Some x) None, st1)
                | (Inr found, st1) \<Rightarrow> (Callback None found, st1))))"

definition sendVerificationEmailById ::
  "collaborators \<Rightarrow> user_id \<Rightarrow> state \<Rightarrow> user callback \<times> state" where
  "sendVerificationEmailById c i st =
     (case findOne c (Conj [Eq_id i, Eq_verified False]) False st of
        (Inl x, st1) \<Rightarrow> (Callback (Some x) None, st1)
      | (Inr None, st1) \<Rightarrow> (Callback None None, st1)
      | (Inr (Some found), st1) \<Rightarrow>
          (let token = generateEmailVerificationToken c found
           in (Callback None (Some found), send_mail (VerificationEmail (email found) token) st1)))"

definition sendPasswordResetEmail ::
  "collaborators \<Rightarrow> string \<Rightarrow> state \<Rightarrow> string callback \<times> state" where
  "sendPasswordResetEmail c e st =
     (case findOneByEmail c e False st of
        (Inl x, st1) \<Rightarrow> (Callback (Some x) None, st1)
      | (Inr None, st1) \<Rightarrow> (Callback None None, st1)
      | (Inr (Some found), st1) \<Rightarrow>
          (let token = generateTempAuthToken c found
           in case mailerAnswer c e token of
                (merr, info) \<Rightarrow> (Callback merr info, send_mail (PasswordResetEmail e token) st1)))"

text \<open>
  \<open>changePassword\<close> (marked unused in the source) reads \<open>user.checkPassword\<close> without
  looking at \<open>err\<close> or at \<open>user\<close>: a TypeError when the lookup gave no document.
\<close>

definition changePassword ::
  "collaborators \<Rightarrow> user_id option \<Rightarrow> string option \<Rightarrow> string option \<Rightarrow> state \<Rightarrow> user callback \<times> state" where
  "changePassword c i oldPassword newPassword st =
     (case (i, oldPassword, newPassword) of
        (Some i', Some old, Some new) \<Rightarrow>
          if old = [] \<or> new = [] then (Callback (Some (Message ''Bad arguments.'')) None, st)
          else
            (case findOne c (Eq_id i') True st of
               (Inr (Some found), st1) \<Rightarrow>
                 if checkPassword c found old
                 then (case findOneAndUpdate c (Eq_id i') [Set_password (generateHash c new)] True st1 of
                         (Inl x, st2) \<Rightarrow> (Callback (Some x) None, st2)
                       | (Inr updated, st2) \<Rightarrow> (Callback None updated, st2))
                 else (Callback (Some (Message ''Incorrect password'')) None, st1)
             | (_, st1) \<Rightarrow> (Throws ''TypeError'', st1))
      | _ \<Rightarrow> (Callback (Some (Message ''Bad arguments.'')) None, st))"

definition resetPassword ::
  "collaborators \<Rightarrow> string option \<Rightarrow> string option \<Rightarrow> state \<Rightarrow> string callback \<times> state" where
  "resetPassword c token pw st =
     (case (pw, token) of
        (Some p, Some t) \<Rightarrow>
          if p = [] \<or> t = [] then (Callback (Some (Message ''Bad arguments'')) None, st)
          else if length p < 6
          then (Callback (Some (Message ''Password must be 6 or more characters.'')) None, st)
          else
            (case verifyTempAuthToken c t of
               (Some x, decoded) \<Rightarrow> (Callback (Some x) None, st)
             | (None, None) \<Rightarrow> (Callback None None, st)
             | (None, Some i) \<Rightarrow>
                 (case findOneAndUpdate c (Eq_id i) [Set_password (generateHash c p)] False st of
                    (Inl x, st1) \<Rightarrow> (Callback (Some x) None, st1)
                  | (Inr None, st1) \<Rightarrow> (Callback None None, st1)
                  | (Inr (Some found), st1) \<Rightarrow>
                      (Callback None (Some ''Password successfully reset!''),
                       send_mail (PasswordChangedEmail (email found)) st1)))
      | _ \<Rightarrow> (Callback (Some (Message ''Bad arguments'')) None, st))"

record submission =
  sub_code :: "string option"
  sub_title :: "string option"

definition pushSubmissionById ::
  "collaborators \<Rightarrow> user_id \<Rightarrow> submission \<Rightarrow> state \<Rightarrow> user callback \<times> state" where
  "pushSubmissionById c i s st =
     (case findOneAndUpdate c (Eq_id i) [Set_code (sub_code s), Set_title (sub_title s)] True st of
        (Inl x, st1) \<Rightarrow> (Callback (Some x) None, st1)
      | (Inr found, st1) \<Rightarrow> (Callback None found, st1))"


section \<open>Every operation of the controller\<close>

text \<open>
  \<open>UserController.getByToken\<close> hands its callback to the user model's \<open>getByToken\<close>.
\<close>

definition UserController_getByToken ::
  "collaborators \<Rightarrow> string \<Rightarrow> state \<Rightarrow> user callback \<times> state" where
  "UserController_getByToken c token st =
     (case getByToken c token st of
        (Inl x, st1) \<Rightarrow> (Callback (Some x) None, st1)
      | (Inr found, st1) \<Rightarrow> (Callback None found, st1))"

text \<open>
  A call of any operation of the controller, and what its callback received with the
  type of the result forgotten: the error argument and whether a result came with it.
\<close>

datatype operation =
    LoginWithToken string
  | LoginWithPassword string "string option"
  | CreateUser js_value "string option"
  | GetByToken string
  | GetAll
  | GetPage page_query
  | GetById user_id
  | UpdateProfileById user_id profile
  | VerifyByToken string
  | SendVerificationEmailById user_id
  | SendPasswordResetEmail string
  | ChangePassword "user_id option" "string option" "string option"
  | ResetPassword "string option" "string option"
  | PushSubmissionById user_id submission

datatype outcome = Done "err option" bool | Thrown string

fun summary :: "'a callback \<Rightarrow> outcome" where
  "summary (Callback e r) = Done e (r \<noteq> None)"
| "summary (Throws n) = Thrown n"

fun run :: "collaborators \<Rightarrow> operation \<Rightarrow> state \<Rightarrow> outcome \<times> state" where
  "run c (LoginWithToken t) st = apfst summary (loginWithToken c t st)"
| "run c (LoginWithPassword e pw) st = apfst summary (loginWithPassword c e pw st)"
| "run c (CreateUser em pw) st = apfst summary (createUser c em pw st)"
| "run c (GetByToken t) st = apfst summary (UserController_getByToken c t st)"
| "run c GetAll st = apfst summary (getAll c st)"
| "run c (GetPage q) st = apfst summary (getPage c q st)"
| "run c (GetById i) st = apfst summary (getById c i st)"
| "run c (UpdateProfileById i p) st = apfst summary (updateProfileById c i p st)"
| "run c (VerifyByToken t) st = apfst summary (verifyByToken c t st)"
| "run c (SendVerificationEmailById i) st = apfst summary (sendVerificationEmailById c i st)"
| "run c (SendPasswordResetEmail e) st = apfst summary (sendPasswordResetEmail c e st)"
| "run c (ChangePassword i old new) st = apfst summary (changePassword c i old new st)"
| "run c (ResetPassword t pw) st = apfst summary (resetPassword c t pw st)"
| "run c (PushSubmissionById i s) st = apfst summary (pushSubmissionById c i s st)"

fun error_of :: "outcome \<Rightarrow> err option" where
  "error_of (Done e r) = e"
| "error_of (Thrown n) = None"

text \<open>A failure reported as the specification asks: an error with a message, no result.\<close>

fun reports_message :: "outcome \<Rightarrow> bool" where
  "reports_message (Done (Some (Message m)) False) = True"
| "reports_message r = False"

text \<open>The store operations a call has asked for: what it added to the operation log.\<close>

definition asked :: "collaborators \<Rightarrow> operation \<Rightarrow> state \<Rightarrow> store_op list" where
  "asked c op st = drop (length (oplog st)) (oplog (snd (run c op st)))"

fun is_changePassword :: "operation \<Rightarrow> bool" where
  "is_changePassword (ChangePassword i old new) = True"
| "is_changePassword op = False"

text \<open>
  The failures the controller detects by its own checks, in the words of the
  specification: in \<open>createUser\<close> an email that is not a string, an absent or short
  password, an account that exists already; in \<open>loginWithPassword\<close> a missing password,
  an email of invalid format, an unknown email, a wrong password; in
  \<open>updateProfileById\<close> an invalid profile; in \<open>resetPassword\<close> a missing argument
  or a short password; in \<open>changePassword\<close> a missing argument or a wrong old
  password. An existing account, an unknown email and a wrong password are detected on the
  answer of the store's lookup.
\<close>

definition too_short :: "string option \<Rightarrow> bool" where
  "too_short pw = (case pw of None \<Rightarrow> True | Some p \<Rightarrow> length p < 6)"

definition stored_by_email :: "state \<Rightarrow> string \<Rightarrow> user option" where
  "stored_by_email st e = find (\<lambda>u. email u = toLowerCase e) (docs st)"

definition stored_by_id :: "state \<Rightarrow> user_id \<Rightarrow> user option" where
  "stored_by_id st i = find (\<lambda>u. uid u = i) (docs st)"

definition lookup_answers :: "collaborators \<Rightarrow> string \<Rightarrow> bool" where
  "lookup_answers c e = (store_fault c (FindOne (Eq_email (toLowerCase e))) = None)"

fun detects :: "collaborators \<Rightarrow> operation \<Rightarrow> state \<Rightarrow> bool" where
  "detects c (CreateUser (JString e) pw) st =
     (too_short pw \<or> (lookup_answers c e \<and> stored_by_email st e \<noteq> None))"
| "detects c (CreateUser em pw) st = True"
| "detects c (LoginWithPassword e pw) st =
     (falsy pw \<or> \<not> isEmail c e \<or>
      (lookup_answers c e \<and>
       (case stored_by_email st e of
          None \<Rightarrow> True
        | Some u \<Rightarrow> (case pw of None \<Rightarrow> True | Some p \<Rightarrow> \<not> checkPassword c u p))))"
| "detects c (UpdateProfileById i p) st = (validateProfile c p \<noteq> None)"
| "detects c (ResetPassword t pw) st = (falsy pw \<or> falsy t \<or> too_short pw)"
| "detects c (ChangePassword i old new) st =
     (case i of
        None \<Rightarrow> True
      | Some i' \<Rightarrow>
          falsy old \<or> falsy new \<or>
          (store_fault c (FindOne (Eq_id i')) = None \<and>
           (case stored_by_id st i' of
              None \<Rightarrow> False
            | Some u \<Rightarrow> (case old of None \<Rightarrow> True | Some p \<Rightarrow> \<not> checkPassword c u p))))"
| "detects c op st = False"

text \<open>
  A lookup that comes back empty: the store matches no document, the token verifier passes
  neither an error nor an id, or the mailer answers with neither an error nor a result.
\<close>

fun empty_lookup :: "collaborators \<Rightarrow> operation \<Rightarrow> state \<Rightarrow> bool" where
  "empty_lookup c (GetByToken t) st =
     (case verifyAuthToken c t of
        (Some x, decoded) \<Rightarrow> False
      | (None, None) \<Rightarrow> True
      | (None, Some i) \<Rightarrow> stored_by_id st i = None)"
| "empty_lookup c (GetById i) st = (stored_by_id st i = None)"
| "empty_lookup c (UpdateProfileById i p) st =
     (find (\<lambda>u. uid u = i \<and> verified u) (docs st) = None)"
| "empty_lookup c (VerifyByToken t) st =
     (find (matches c (Re_email (''^'' @ js_concat_arg (snd (verifyEmailVerificationToken c t)) @ ''$'')))
        (docs st) = None)"
| "empty_lookup c (SendVerificationEmailById i) st =
     (find (\<lambda>u. uid u = i \<and> \<not> verified u) (docs st) = None)"
| "empty_lookup c (SendPasswordResetEmail e) st =
     (case stored_by_email st e of
        None \<Rightarrow> True
      | Some u \<Rightarrow> mailerAnswer c e (tempTokenFor c (uid u)) = (None, None))"
| "empty_lookup c (ResetPassword t pw) st =
     (case t of
        None \<Rightarrow> False
      | Some t' \<Rightarrow>
          (case verifyTempAuthToken c t' of
             (Some x, decoded) \<Rightarrow> False
           | (None, None) \<Rightarrow> True
           | (None, Some i) \<Rightarrow> stored_by_id st i = None))"
| "empty_lookup c (PushSubmissionById i s) st = (stored_by_id st i = None)"
| "empty_lookup c op st = False"

text \<open>
  \<open>verifyByToken\<close> with a token its verifier accepts and an email that is a valid
  pattern; every other call is plain.
\<close>

fun plain :: "collaborators \<Rightarrow> operation \<Rightarrow> bool" where
  "plain c (VerifyByToken t) =
     (fst (verifyEmailVerificationToken c t) = None \<and>
      regexp_i c (''^'' @ js_concat_arg (snd (verifyEmailVerificationToken c t)) @ ''$'') \<noteq> None)"
| "plain c op = True"

section \<open>Concrete collaborators\<close>

text \<open>
  For evaluating the model at concrete inputs: a fragment of the runtime's regular
  expressions (an optional \<open>^\<close> at the start, an optional \<open>$\<close> at the end, between
  them ordinary characters and the dot, which stands for any character but a line
  terminator), matched without regard to the case of letters. A pattern with any other
  special character is outside the fragment and is treated like one the constructor
  refuses. On strings without line terminators the runtime and the store's own engine
  agree on this fragment.
\<close>

datatype re_atom = Lit char | Dot

definition re_special :: string where
  "re_special = CHR 0x5C # ''^$.*+?()[]{}|''"

fun re_atoms :: "string \<Rightarrow> re_atom list option" where
  "re_atoms [] = Some []"
| "re_atoms (ch # p) =
     (if ch = CHR ''.'' then map_option ((#) Dot) (re_atoms p)
      else if ch \<in> set re_special then None
      else map_option ((#) (Lit ch)) (re_atoms p))"

fun atom_test :: "re_atom \<Rightarrow> char \<Rightarrow> bool" where
  "atom_test (Lit a) ch = (to_lower_char a = to_lower_char ch)"
| "atom_test Dot ch = (ch \<noteq> CHR 0x0A \<and> ch \<noteq> CHR 0x0D)"

fun match_prefix :: "re_atom list \<Rightarrow> string \<Rightarrow> bool" where
  "match_prefix [] s = True"
| "match_prefix (a # as) [] = False"
| "match_prefix (a # as) (ch # s) = (atom_test a ch \<and> match_prefix as s)"

fun match_whole :: "re_atom list \<Rightarrow> string \<Rightarrow> bool" where
  "match_whole [] s = (s = [])"
| "match_whole (a # as) [] = False"
| "match_whole (a # as) (ch # s) = (atom_test a ch \<and> match_whole as s)"

fun tails :: "'a list \<Rightarrow> 'a list list" where
  "tails [] = [[]]"
| "tails (x # xs) = (x # xs) # tails xs"

definition js_regexp_i :: "string \<Rightarrow> (string \<Rightarrow> bool) option" where
  "js_regexp_i p =
     (let at_start = (p \<noteq> [] \<and> hd p = CHR ''^'');
          p1 = (if at_start then tl p else p);
          at_end = (p1 \<noteq> [] \<and> last p1 = CHR ''$'');
          p2 = (if at_end then butlast p1 else p1)
      in case re_atoms p2 of
           None \<Rightarrow> None
         | Some as \<Rightarrow>
             Some (\<lambda>s. list_ex (\<lambda>t. if at_end then match_whole as t else match_prefix as t)
                          (if at_start then [s] else tails s)))"

text \<open>
  Stand-ins for the other collaborators: an email is a string with an \<open>@\<close>; a hash
  is the password behind a \<open>#\<close>; a verification token is the email behind
  \<open>email:\<close>, any other token is rejected with no decoded value; the store answers every
  operation.
\<close>

definition demo :: collaborators where
  "demo =
     \<lparr>isEmail = (\<lambda>s. CHR ''@'' \<in> set s),
      generateHash = (\<lambda>p. CHR ''#'' # p),
      checkHash = (\<lambda>p h. h = CHR ''#'' # p),
      regexp_i = js_regexp_i,
      authTokenFor = (\<lambda>i. ''auth:'' @ replicate i (CHR ''i'')),
      emailTokenFor = (\<lambda>e. ''email:'' @ e),
      tempTokenFor = (\<lambda>i. ''temp:'' @ replicate i (CHR ''i'')),
      verifyAuthToken = (\<lambda>t. (Some (Upstream ''JsonWebTokenError''), None)),
      verifyEmailVerificationToken =
        (\<lambda>t. if take 6 t = ''email:'' then (None, Some (drop 6 t))
             else (Some (Upstream ''JsonWebTokenError''), None)),
      verifyTempAuthToken = (\<lambda>t. (Some (Upstream ''JsonWebTokenError''), None)),
      validateProfile = (\<lambda>p. if name p = [] then Some (Message ''Name must not be empty'') else None),
      now = 0,
      mailerAnswer = (\<lambda>e t. (None, Some ''queued'')),
      store_fault = (\<lambda>op. None)\<rparr>"

definition empty_state :: state where
  "empty_state = \<lparr>docs = [], fresh = 0, oplog = [], outbox = []\<rparr>"

text \<open>A registered, unverified user and the state that holds her alone.\<close>

definition ann :: user where
  "ann = \<lparr>uid = 0, email = ''ann@example.org'', password = Some ''#secret'', verified = False,
          profile = None, completedProfile = False, lastUpdated = 0, teamCode = None,
          code = None, title = None\<rparr>"

definition ann_state :: state where
  "ann_state = \<lparr>docs = [ann], fresh = 1, oplog = [], outbox = []\<rparr>"

text \<open>Two more users, with profiles, and the state that holds all three.\<close>

definition bob :: user where
  "bob = \<lparr>uid = 1, email = ''bob@example.org'', password = Some ''#hunter22'', verified = True,
          profile = Some \<lparr>name = ''Zed''\<rparr>, completedProfile = True, lastUpdated = 0,
          teamCode = Some ''red'', code = None, title = None\<rparr>"

definition cy :: user where
  "cy = \<lparr>uid = 2, email = ''cy@example.org'', password = Some ''#letmein'', verified = True,
         profile = Some \<lparr>name = ''Amy''\<rparr>, completedProfile = True, lastUpdated = 0,
         teamCode = None, code = None, title = None\<rparr>"

definition trio_state :: state where
  "trio_state = \<lparr>docs = [ann, bob, cy], fresh = 3, oplog = [], outbox = []\<rparr>"

text \<open>The same collaborators with a store that answers every operation with an error.\<close>

definition down :: collaborators where
  "down = demo\<lparr>store_fault := (\<lambda>op. Some (Upstream ''MongoError''))\<rparr>"

text \<open>
  A store that refuses to save and answers everything else, and a store that answers every
  operation with an error behind a token verifier that accepts every temporary token for
  the user id 0.
\<close>

definition down_on_save :: collaborators where
  "down_on_save =
     demo\<lparr>store_fault := (\<lambda>op. case op of Save u \<Rightarrow> Some (Upstream ''MongoError'') | _ \<Rightarrow> None)\<rparr>"

definition down_behind_verifier :: collaborators where
  "down_behind_verifier = down\<lparr>verifyTempAuthToken := (\<lambda>t. (None, Some 0))\<rparr>"

section \<open>Properties\<close>

text \<open>
  C4. A password that is absent or shorter than 6 characters makes \<open>createUser\<close> fail
  with a descriptive message, whatever the email argument is, and the state is left as it
  was: no document is read or written (the operation log of the store is unchanged) and no
  mail is sent. The message is the password message for a string email, since the check of
  the password runs before the lookup of the email, and the email message otherwise.
\<close>

theorem createUser_short_password:
  "(case pw of None \<Rightarrow> True | Some p \<Rightarrow> length p < 6) \<Longrightarrow>
   createUser c em pw st =
     (Callback (Some (Message (if typeof em = ''string''
                               then ''Password must be 6 or more characters.''
                               else ''Email must be a string.''))) None, st)"
  by (cases em) (auto simp: createUser_def canRegister_def is_error_def Let_def split: option.splits)

theorem createUser_short_password_witness:
  "length ''12345'' < 6 \<and>
   createUser demo (JString ''Ann@Example.org'') (Some ''12345'') empty_state =
     (Callback (Some (Message ''Password must be 6 or more characters.'')) None, empty_state)"
  using createUser_short_password [of "Some ''12345''" demo "JString ''Ann@Example.org''" empty_state]
  by simp

lemma matches_Eq_email: "matches c (Eq_email x) = (\<lambda>u. email u = x)"
  by (rule ext) simp

lemma matches_Eq_id: "matches c (Eq_id i) = (\<lambda>u. uid u = i)"
  by (rule ext) simp

text \<open>
  C3. \<open>loginWithPassword\<close>: a missing password, an email of invalid format and an
  unknown email each fail with their generic message; for a stored user, a password that
  does not match the stored hash never yields a token: the callback gets an error and no
  result; and for the email of a stored user with the matching password the callback gets
  no error, the session token generated for that user's id, and the user without the
  password field.
\<close>

theorem loginWithPassword_contract:
  "(falsy pw \<longrightarrow>
      fst (loginWithPassword c e pw st) = Callback (Some (Message ''Please enter a password'')) None) \<and>
   (\<not> falsy pw \<and> \<not> isEmail c e \<longrightarrow>
      fst (loginWithPassword c e pw st) = Callback (Some (Message ''Invalid email'')) None) \<and>
   (\<not> falsy pw \<and> isEmail c e \<and> store_fault c (FindOne (Eq_email (toLowerCase e))) = None \<and>
    find (\<lambda>u. email u = toLowerCase e) (docs st) = None \<longrightarrow>
      fst (loginWithPassword c e pw st) = Callback (Some (Message ''We couldn't find you!'')) None) \<and>
   (find (\<lambda>u. email u = toLowerCase e) (docs st) = Some u \<and> pw = Some p \<and> \<not> checkPassword c u p \<longrightarrow>
      (\<exists>x. fst (loginWithPassword c e pw st) = Callback (Some x) None)) \<and>
   (p \<noteq> [] \<and> isEmail c e \<and> store_fault c (FindOne (Eq_email (toLowerCase e))) = None \<and>
    find (\<lambda>u. email u = toLowerCase e) (docs st) = Some u \<and> pw = Some p \<and> checkPassword c u p \<longrightarrow>
      fst (loginWithPassword c e pw st) =
        Callback None (Some \<lparr>login_token = authTokenFor c (uid u),
                              login_user = Some (u\<lparr>password := None\<rparr>)\<rparr>))"
  by (auto simp: loginWithPassword_def falsy_def findOneByEmail_def findOne_def project_def
        generateAuthToken_def Let_def matches_Eq_email split: option.splits)
lemmas eval_strings = toLowerCase_def to_lower_char_def upper_case_def lower_case_def

theorem loginWithPassword_contract_witness:
  "falsy None \<and>
   fst (loginWithPassword demo ''ann@example.org'' None ann_state) =
     Callback (Some (Message ''Please enter a password'')) None \<and>
   \<not> falsy (Some ''secret'') \<and> \<not> isEmail demo ''ann'' \<and>
   fst (loginWithPassword demo ''ann'' (Some ''secret'') ann_state) =
     Callback (Some (Message ''Invalid email'')) None \<and>
   find (\<lambda>u. email u = toLowerCase ''bob@example.org'') (docs ann_state) = None \<and>
   fst (loginWithPassword demo ''bob@example.org'' (Some ''secret'') ann_state) =
     Callback (Some (Message ''We couldn't find you!'')) None \<and>
   find (\<lambda>u. email u = toLowerCase ''Ann@Example.org'') (docs ann_state) = Some ann \<and>
   \<not> checkPassword demo ann ''Secret'' \<and>
   (\<exists>x. fst (loginWithPassword demo ''Ann@Example.org'' (Some ''Secret'') ann_state) =
          Callback (Some x) None) \<and>
   checkPassword demo ann ''secret'' \<and>
   fst (loginWithPassword demo ''Ann@Example.org'' (Some ''secret'') ann_state) =
     Callback None (Some \<lparr>login_token = ''auth:'', login_user = Some (ann\<lparr>password := None\<rparr>)\<rparr>)"
proof -
  note contract = loginWithPassword_contract [where c = demo and st = ann_state and u = ann]
  have absent: "falsy None"
    by (simp add: falsy_def)
  have present: "\<not> falsy (Some ''secret'')"
    by (simp add: falsy_def)
  have no_fault: "store_fault demo op = None" for op
    by (simp add: demo_def)
  have bad_email: "\<not> isEmail demo ''ann''" and good_email: "isEmail demo ''bob@example.org''"
    and anns_email: "isEmail demo ''Ann@Example.org''"
    by (simp_all add: demo_def)
  have unknown: "find (\<lambda>u. email u = toLowerCase ''bob@example.org'') (docs ann_state) = None"
    by (simp add: ann_state_def ann_def eval_strings)
  have known: "find (\<lambda>u. email u = toLowerCase ''Ann@Example.org'') (docs ann_state) = Some ann"
    by (simp add: ann_state_def ann_def eval_strings)
  have wrong: "\<not> checkPassword demo ann ''Secret''" and right: "checkPassword demo ann ''secret''"
    by (simp_all add: checkPassword_def demo_def ann_def)
  have uid_ann: "authTokenFor demo (uid ann) = ''auth:''"
    by (simp add: demo_def ann_def)
  from contract [where e = "''ann@example.org''" and pw = None and p = "[]"] absent
  have 1: "fst (loginWithPassword demo ''ann@example.org'' None ann_state) =
     Callback (Some (Message ''Please enter a password'')) None"
    by blast
  from contract [where e = "''ann''" and pw = "Some ''secret''" and p = "[]"] present bad_email
  have 2: "fst (loginWithPassword demo ''ann'' (Some ''secret'') ann_state) =
     Callback (Some (Message ''Invalid email'')) None"
    by blast
  from contract [where e = "''bob@example.org''" and pw = "Some ''secret''" and p = "[]"]
    present good_email unknown no_fault
  have 3: "fst (loginWithPassword demo ''bob@example.org'' (Some ''secret'') ann_state) =
     Callback (Some (Message ''We couldn't find you!'')) None"
    by blast
  from contract [where e = "''Ann@Example.org''" and pw = "Some ''Secret''" and p = "''Secret''"]
    known wrong
  have 4: "\<exists>x. fst (loginWithPassword demo ''Ann@Example.org'' (Some ''Secret'') ann_state) =
          Callback (Some x) None"
    by blast
  from contract [where e = "''Ann@Example.org''" and pw = "Some ''secret''" and p = "''secret''"]
    known right anns_email no_fault uid_ann
  have 5: "fst (loginWithPassword demo ''Ann@Example.org'' (Some ''secret'') ann_state) =
     Callback None (Some \<lparr>login_token = ''auth:'', login_user = Some (ann\<lparr>password := None\<rparr>)\<rparr>)"
    by simp
  from absent present bad_email unknown known wrong right 1 2 3 4 5 show ?thesis
    by blast
qed

lemma toLowerCase_idem: "toLowerCase (toLowerCase s) = toLowerCase s"
  by (simp add: toLowerCase_def to_lower_char_def upper_case_def lower_case_def split: option.splits)

lemma find_append_new:
  "find P xs = None \<Longrightarrow> P x \<Longrightarrow> find P (xs @ [x]) = Some x"
  by (induction xs) (auto split: if_splits)

text \<open>
  C5. With a store that answers every operation, a string email that no stored user has
  in its lower-case form, and two passwords of 6 or more characters: the first
  \<open>createUser\<close> succeeds and appends the new user, with the lower-case email, to the
  stored documents; a second \<open>createUser\<close> for an email that is the same up to the
  case of letters fails with the message that the account already exists, leaves the
  stored documents as they are and asks the store for the lookup only.
\<close>

theorem createUser_twice:
  assumes answers: "\<forall>op. store_fault c op = None"
    and same: "toLowerCase e1 = toLowerCase e2"
    and long1: "6 \<le> length p1" and long2: "6 \<le> length p2"
    and unknown: "find (\<lambda>u. email u = toLowerCase e1) (docs st) = None"
  shows "\<exists>reg st1 st2.
           createUser c (JString e1) (Some p1) st = (Callback None (Some reg), st1) \<and>
           email (reg_user reg) = toLowerCase e1 \<and>
           docs st1 = docs st @ [reg_user reg] \<and>
           createUser c (JString e2) (Some p2) st1 =
             (Callback (Some (Message ''An account for this email already exists.'')) None, st2) \<and>
           docs st2 = docs st1 \<and>
           oplog st2 = oplog st1 @ [FindOne (Eq_email (toLowerCase e2))]"
proof -
  define u where "u = \<lparr>uid = fresh st, email = toLowerCase e1, password = Some (generateHash c p1),
    verified = False, profile = None, completedProfile = False, lastUpdated = 0, teamCode = None,
    code = None, title = None\<rparr>"
  define st1 where "st1 = send_mail (VerificationEmail (toLowerCase e1) (generateEmailVerificationToken c u))
    (logged (Save u) ((logged (FindOne (Eq_email (toLowerCase e1))) st)\<lparr>fresh := Suc (fresh st),
       docs := docs st @ [u]\<rparr>))"
  have first: "createUser c (JString e1) (Some p1) st =
      (Callback None (Some \<lparr>reg_token = generateAuthToken c u, reg_user = u\<rparr>), st1)"
    using answers long1 unknown
    by (auto simp: createUser_def canRegister_def is_error_def findOneByEmail_def findOne_def save_def
        new_User_def logged_def send_mail_def Let_def matches_Eq_email toLowerCase_idem u_def st1_def)
  have docs1: "docs st1 = docs st @ [u]"
    by (simp add: st1_def send_mail_def logged_def)
  have "find (\<lambda>v. email v = toLowerCase e1) (docs st1) = Some u"
    unfolding docs1 by (rule find_append_new [OF unknown]) (simp add: u_def)
  with same have "find (\<lambda>v. email v = toLowerCase e2) (docs st1) = Some u"
    by simp
  then have second: "createUser c (JString e2) (Some p2) st1 =
      (Callback (Some (Message ''An account for this email already exists.'')) None,
       logged (FindOne (Eq_email (toLowerCase e2))) st1)"
    using answers long2 same
    by (auto simp: createUser_def canRegister_def is_error_def findOneByEmail_def findOne_def
        Let_def matches_Eq_email toLowerCase_idem)
  show ?thesis
    using first second docs1 by (auto simp: logged_def u_def)
qed

theorem createUser_twice_witness:
  "(\<forall>op. store_fault demo op = None) \<and>
   toLowerCase ''Ann@Example.org'' = toLowerCase ''ann@EXAMPLE.org'' \<and>
   6 \<le> length ''secret'' \<and> 6 \<le> length ''another'' \<and>
   find (\<lambda>u. email u = toLowerCase ''Ann@Example.org'') (docs empty_state) = None \<and>
   (\<exists>reg st1 st2.
      createUser demo (JString ''Ann@Example.org'') (Some ''secret'') empty_state =
        (Callback None (Some reg), st1) \<and>
      email (reg_user reg) = toLowerCase ''Ann@Example.org'' \<and>
      docs st1 = docs empty_state @ [reg_user reg] \<and>
      createUser demo (JString ''ann@EXAMPLE.org'') (Some ''another'') st1 =
        (Callback (Some (Message ''An account for this email already exists.'')) None, st2) \<and>
      docs st2 = docs st1 \<and>
      oplog st2 = oplog st1 @ [FindOne (Eq_email (toLowerCase ''ann@EXAMPLE.org''))])"
proof -
  have answers: "\<forall>op. store_fault demo op = None"
    by (simp add: demo_def)
  have same: "toLowerCase ''Ann@Example.org'' = toLowerCase ''ann@EXAMPLE.org''"
    by (simp add: eval_strings)
  have long1: "6 \<le> length ''secret''" and long2: "6 \<le> length ''another''"
    by simp_all
  have unknown: "find (\<lambda>u. email u = toLowerCase ''Ann@Example.org'') (docs empty_state) = None"
    by (simp add: empty_state_def)
  from createUser_twice [OF answers same long1 long2 unknown] answers same long1 long2 unknown
  show ?thesis
    by blast
qed

lemma update_first_twice:
  "(\<And>u. P u \<Longrightarrow> P (f u)) \<Longrightarrow> (\<And>u. g (f u) = g u) \<Longrightarrow>
   update_first P g (update_first P f us) = update_first P g us"
  by (induction us) auto

lemma find_update_first: "find P (update_first P f us) = (if (\<exists>u\<in>set us. P u) then map_option f (find P us) else None)" if "\<And>u. P u \<Longrightarrow> P (f u)"
  using that by (induction us) auto

lemma apply_set_submission:
  "apply_set [Set_code x, Set_title y] = (\<lambda>u. u\<lparr>code := x, title := y\<rparr>)"
  by (rule ext) (simp add: apply_set_def)

text \<open>
  C10. Two submissions pushed one after the other for the same user id, the second of
  them carried out by the store: the stored documents are then the original ones with
  the code and title of the first document of that id replaced by the second
  submission's values; nothing of the first submission remains, whether or not the store
  carried it out. In particular a stored user of that id ends with exactly the second
  submission's code and title, and the final documents are those that pushing the second
  submission alone would leave.
\<close>

theorem pushSubmissionById_twice:
  assumes answers: "store_fault c (FindOneAndUpdate (Eq_id i) [Set_code (sub_code s2), Set_title (sub_title s2)]) = None"
  shows "docs (snd (pushSubmissionById c i s2 (snd (pushSubmissionById c i s1 st)))) =
           update_first (\<lambda>u. uid u = i) (\<lambda>u. u\<lparr>code := sub_code s2, title := sub_title s2\<rparr>) (docs st) \<and>
         docs (snd (pushSubmissionById c i s2 (snd (pushSubmissionById c i s1 st)))) =
           docs (snd (pushSubmissionById c i s2 st)) \<and>
         (\<forall>u. find (\<lambda>u. uid u = i) (docs st) = Some u \<longrightarrow>
              find (\<lambda>u. uid u = i)
                (docs (snd (pushSubmissionById c i s2 (snd (pushSubmissionById c i s1 st))))) =
                Some (u\<lparr>code := sub_code s2, title := sub_title s2\<rparr>))"
proof -
  let ?set2 = "\<lambda>u. u\<lparr>code := sub_code s2, title := sub_title s2\<rparr>"
  let ?set1 = "\<lambda>u. u\<lparr>code := sub_code s1, title := sub_title s1\<rparr>"
  let ?P = "\<lambda>u. uid u = i"
  have push2: "docs (snd (pushSubmissionById c i s2 st')) = update_first ?P ?set2 (docs st')" for st'
    using answers
    by (simp add: pushSubmissionById_def findOneAndUpdate_def logged_def matches_Eq_id
        apply_set_submission split: option.splits)
  have push1: "docs (snd (pushSubmissionById c i s1 st)) = docs st \<or>
      docs (snd (pushSubmissionById c i s1 st)) = update_first ?P ?set1 (docs st)"
    by (simp add: pushSubmissionById_def findOneAndUpdate_def logged_def matches_Eq_id
        apply_set_submission split: option.splits)
  have over: "update_first ?P ?set2 (update_first ?P ?set1 (docs st)) = update_first ?P ?set2 (docs st)"
    by (rule update_first_twice) simp_all
  have final: "docs (snd (pushSubmissionById c i s2 (snd (pushSubmissionById c i s1 st)))) =
      update_first ?P ?set2 (docs st)"
    using push1 over by (auto simp: push2)
  have found: "find ?P (update_first ?P ?set2 (docs st)) = Some (?set2 u)"
    if "find ?P (docs st) = Some u" for u
    using that by (subst find_update_first) (auto simp: find_Some_iff)
  show ?thesis
    using final found by (simp add: push2)
qed

theorem pushSubmissionById_twice_witness:
  "store_fault demo (FindOneAndUpdate (Eq_id 0)
      [Set_code (sub_code \<lparr>sub_code = Some ''v2'', sub_title = None\<rparr>),
       Set_title (sub_title \<lparr>sub_code = Some ''v2'', sub_title = None\<rparr>)]) = None \<and>
   find (\<lambda>u. uid u = 0) (docs ann_state) = Some ann \<and>
   find (\<lambda>u. uid u = 0)
     (docs (snd (pushSubmissionById demo 0 \<lparr>sub_code = Some ''v2'', sub_title = None\<rparr>
        (snd (pushSubmissionById demo 0 \<lparr>sub_code = Some ''v1'', sub_title = Some ''first''\<rparr>
           ann_state))))) =
     Some (ann\<lparr>code := Some ''v2'', title := None\<rparr>)"
proof -
  have answers: "store_fault demo (FindOneAndUpdate (Eq_id 0)
      [Set_code (sub_code \<lparr>sub_code = Some ''v2'', sub_title = None\<rparr>),
       Set_title (sub_title \<lparr>sub_code = Some ''v2'', sub_title = None\<rparr>)]) = None"
    by (simp add: demo_def)
  have stored: "find (\<lambda>u. uid u = 0) (docs ann_state) = Some ann"
    by (simp add: ann_state_def ann_def)
  note twice = pushSubmissionById_twice [OF answers,
      of "\<lparr>sub_code = Some ''v1'', sub_title = Some ''first''\<rparr>" ann_state]
  from twice [THEN conjunct2, THEN conjunct2, rule_format, OF stored] answers stored
  show ?thesis
    by simp
qed







lemma createUser_success_keeps_hash:
  assumes "createUser c em pw st = (Callback None (Some reg), st')"
  shows "\<exists>p. pw = Some p \<and> password (reg_user reg) = Some (generateHash c p)"
  using assms
  by (cases em; cases pw)
    (auto simp: createUser_def canRegister_def is_error_def new_User_def Let_def
      split: if_splits prod.splits sum.splits option.splits)

text \<open>
  C1. The user that a successful \<open>createUser\<close> hands to its callback is the new
  document itself, with the password hash in its password field: registering
  \<open>Ann@Example.org\<close> with the password \<open>secret\<close> on an empty store returns the
  user \<open>ann\<close>, whose password field holds the hash of \<open>secret\<close>.
  \<open>loginWithPassword\<close> deletes the field before it calls back; \<open>createUser\<close> does
  not.
\<close>

theorem createUser_returns_password_hash:
  "fst (createUser demo (JString ''Ann@Example.org'') (Some ''secret'') empty_state) =
     Callback None (Some \<lparr>reg_token = authTokenFor demo 0, reg_user = ann\<rparr>) \<and>
   password ann = Some (generateHash demo ''secret'')"
  by code_simp

lemma verifyByToken_ignores_error:
  assumes "verifyEmailVerificationToken c t = (x, None)"
    and "regexp_i c ''^undefined$'' = Some re"
    and "store_fault c (FindOneAndUpdate (Re_email ''^undefined$'') [Set_verified True]) = None"
  shows "fst (verifyByToken c t st) =
           Callback None (map_option (\<lambda>u. u\<lparr>verified := True, password := None\<rparr>)
                            (find (\<lambda>u. re (email u)) (docs st)))"
proof -
  have "matches c (Re_email ''^undefined$'') = (\<lambda>u. re (email u))"
    using assms(2) by (intro ext) (simp add: re_test_def)
  then show ?thesis
    using assms
    by (simp add: verifyByToken_def js_concat_arg_def findOneAndUpdate_def apply_set_def
        project_def option.map_comp comp_def)
qed

text \<open>
  C2. \<open>verifyByToken\<close> does not look at the error of the token verifier. For a token
  the verifier rejects (an error, no decoded email) it searches for the email
  \<open>undefined\<close>: with no such user the callback gets neither an error nor a user, and a
  user registered under the email \<open>undefined\<close> is marked verified by the rejected
  token.
\<close>

theorem verifyByToken_rejected_token:
  "verifyEmailVerificationToken demo ''garbage'' = (Some (Upstream ''JsonWebTokenError''), None) \<and>
   fst (verifyByToken demo ''garbage'' ann_state) = Callback None None \<and>
   map verified (docs (snd (createUser demo (JString ''undefined'') (Some ''secret'') empty_state))) =
     [False] \<and>
   map verified (docs (snd (verifyByToken demo ''garbage''
     (snd (createUser demo (JString ''undefined'') (Some ''secret'') empty_state))))) = [True]"
  by code_simp

text \<open>
  C6. The decoded email is used as a pattern, not as text: its dots match any character.
  With \<open>johnxdoe@mail.com\<close> registered before \<open>john.doe@mail.com\<close>, the
  verification token of \<open>john.doe@mail.com\<close> marks \<open>johnxdoe@mail.com\<close> verified and
  leaves \<open>john.doe@mail.com\<close> unverified.
\<close>

theorem verifyByToken_marks_other_user:
  "verifyEmailVerificationToken demo (emailTokenFor demo ''john.doe@mail.com'') =
     (None, Some ''john.doe@mail.com'') \<and>
   map (\<lambda>u. (email u, verified u))
     (docs (snd (verifyByToken demo (emailTokenFor demo ''john.doe@mail.com'')
        (snd (createUser demo (JString ''john.doe@mail.com'') (Some ''secret2'')
           (snd (createUser demo (JString ''johnxdoe@mail.com'') (Some ''secret1'') empty_state))))))) =
     [(''johnxdoe@mail.com'', True), (''john.doe@mail.com'', False)]"
  by code_simp

lemma getPage_no_text: "q_text q = None \<Longrightarrow> getPage c q st = (Throws ''TypeError'', st)"
  by (simp add: getPage_def)

text \<open>
  C9. A query without a \<open>text\<close> field makes \<open>getPage\<close> throw a TypeError when it
  reads the length of the text: the callback is never called and the store is not asked.
\<close>

theorem getPage_without_text_throws:
  "getPage demo \<lparr>q_page = 0, q_size = 10, q_text = None\<rparr> trio_state =
     (Throws ''TypeError'', trio_state)"
  by (simp add: getPage_def)

lemma matches_id_verified:
  "matches c (Conj [Eq_id i, Eq_verified True]) = (\<lambda>u. uid u = i \<and> verified u)"
  by (rule ext) simp

text \<open>
  C7, as the claim states it, fails: \<open>updateProfileById\<close> for an id no user has, or
  for a user who is not verified, and \<open>sendPasswordResetEmail\<close> for an unknown email
  complete their callback with neither an error nor a result.
\<close>

theorem callback_without_error_or_result:
  "validateProfile demo \<lparr>name = ''Ann''\<rparr> = None \<and>
   fst (updateProfileById demo 7 \<lparr>name = ''Ann''\<rparr> ann_state) = Callback None None \<and>
   fst (updateProfileById demo 0 \<lparr>name = ''Ann''\<rparr> ann_state) = Callback None None \<and>
   fst (sendPasswordResetEmail demo ''bob@example.org'' ann_state) = Callback None None"
  by code_simp

lemma logged_simps [simp]:
  "docs (logged o' st) = docs st" "oplog (logged o' st) = oplog st @ [o']"
  by (simp_all add: logged_def)

lemmas lookup_defs = findOneByEmail_def findOne_def matches_Eq_email matches_Eq_id toLowerCase_idem
  lookup_answers_def stored_by_email_def stored_by_id_def

lemma detects_reported:
  assumes "detects c op st"
  shows "reports_message (fst (run c op st))"
proof (cases op)
  case (CreateUser em pw)
  with assms show ?thesis
    by (cases em; cases pw)
      (auto simp: createUser_def canRegister_def is_error_def too_short_def lookup_defs)
next
  case (LoginWithPassword e pw)
  with assms show ?thesis
    by (cases pw)
      (auto simp: loginWithPassword_def falsy_def project_def lookup_defs split: option.splits)
next
  case (UpdateProfileById i p)
  with assms show ?thesis
    by (auto simp: updateProfileById_def)
next
  case (ResetPassword t pw)
  with assms show ?thesis
    by (cases pw; cases t) (auto simp: resetPassword_def falsy_def too_short_def)
next
  case (ChangePassword i old new)
  with assms show ?thesis
    by (cases i; cases old; cases new)
      (auto simp: changePassword_def falsy_def project_def lookup_defs split: option.splits)
qed (use assms in simp_all)

lemma store_error_handed_on:
  assumes "\<not> is_changePassword op" and "o' \<in> set (asked c op st)"
    and "store_fault c o' = Some x"
  shows "error_of (fst (run c op st)) = Some x"
proof (cases op)
  case (LoginWithToken t)
  with assms show ?thesis
    by (auto simp: asked_def loginWithToken_def getByToken_def findOne_def
        split: option.splits prod.splits)
next
  case (LoginWithPassword e pw)
  with assms show ?thesis
    by (auto simp: asked_def loginWithPassword_def findOneByEmail_def findOne_def Let_def
        split: option.splits if_splits)
next
  case (CreateUser em pw)
  with assms show ?thesis
    by (cases em)
      (auto simp: asked_def createUser_def canRegister_def is_error_def findOneByEmail_def
        findOne_def save_def new_User_def send_mail_def Let_def split: option.splits if_splits)
next
  case (GetByToken t)
  with assms show ?thesis
    by (auto simp: asked_def UserController_getByToken_def getByToken_def findOne_def
        split: option.splits prod.splits)
next
  case GetAll
  with assms show ?thesis
    by (auto simp: asked_def getAll_def find_docs_def split: option.splits)
next
  case (GetPage q)
  with assms show ?thesis
    by (auto simp: asked_def getPage_def find_docs_def count_docs_def Let_def
        split: option.splits if_splits)
next
  case (GetById i)
  with assms show ?thesis
    by (auto simp: asked_def getById_def findOne_def split: option.splits)
next
  case (UpdateProfileById i p)
  with assms show ?thesis
    by (auto simp: asked_def updateProfileById_def findOneAndUpdate_def split: option.splits)
next
  case (VerifyByToken t)
  with assms show ?thesis
    by (auto simp: asked_def verifyByToken_def findOneAndUpdate_def Let_def
        split: option.splits prod.splits)
next
  case (SendVerificationEmailById i)
  with assms show ?thesis
    by (auto simp: asked_def sendVerificationEmailById_def findOne_def send_mail_def Let_def
        split: option.splits)
next
  case (SendPasswordResetEmail e)
  with assms show ?thesis
    by (auto simp: asked_def sendPasswordResetEmail_def findOneByEmail_def findOne_def
        send_mail_def Let_def split: option.splits prod.splits)
next
  case (ChangePassword i old new)
  with assms show ?thesis
    by simp
next
  case (ResetPassword t pw)
  with assms show ?thesis
    by (auto simp: asked_def resetPassword_def findOneAndUpdate_def send_mail_def
        split: option.splits prod.splits if_splits)
next
  case (PushSubmissionById i s)
  with assms show ?thesis
    by (auto simp: asked_def pushSubmissionById_def findOneAndUpdate_def split: option.splits)
qed

lemma matches_id_unverified:
  "matches c (Conj [Eq_id i, Eq_verified False]) = (\<lambda>u. uid u = i \<and> \<not> verified u)"
  by (rule ext) simp

lemma silent_only_on_empty_lookup:
  assumes "fst (run c op st) = Done None False"
  shows "empty_lookup c op st"
proof (cases op)
  case (LoginWithToken t)
  with assms show ?thesis
    by (auto simp: loginWithToken_def split: prod.splits sum.splits)
next
  case (LoginWithPassword e pw)
  with assms show ?thesis
    by (auto simp: loginWithPassword_def findOneByEmail_def findOne_def Let_def
        split: option.splits if_splits)
next
  case (CreateUser em pw)
  with assms show ?thesis
    by (cases em)
      (auto simp: createUser_def canRegister_def is_error_def findOneByEmail_def
        findOne_def save_def new_User_def Let_def split: option.splits if_splits)
next
  case (GetByToken t)
  with assms show ?thesis
    by (auto simp: UserController_getByToken_def getByToken_def lookup_defs
        split: option.splits prod.splits)
next
  case GetAll
  with assms show ?thesis
    by (auto simp: getAll_def find_docs_def split: option.splits)
next
  case (GetPage q)
  with assms show ?thesis
    by (auto simp: getPage_def find_docs_def count_docs_def Let_def
        split: option.splits if_splits)
next
  case (GetById i)
  with assms show ?thesis
    by (auto simp: getById_def lookup_defs split: option.splits)
next
  case (UpdateProfileById i p)
  with assms show ?thesis
    by (auto simp: updateProfileById_def findOneAndUpdate_def matches_id_verified
        split: option.splits)
next
  case (VerifyByToken t)
  with assms show ?thesis
    by (auto simp: verifyByToken_def findOneAndUpdate_def Let_def
        split: option.splits prod.splits)
next
  case (SendVerificationEmailById i)
  with assms show ?thesis
    by (auto simp: sendVerificationEmailById_def findOne_def matches_id_unverified Let_def
        split: option.splits)
next
  case (SendPasswordResetEmail e)
  with assms show ?thesis
    by (auto simp: sendPasswordResetEmail_def generateTempAuthToken_def project_def lookup_defs
        Let_def split: option.splits prod.splits)
next
  case (ChangePassword i old new)
  with assms show ?thesis
    by (auto simp: changePassword_def findOne_def findOneAndUpdate_def
        split: option.splits prod.splits if_splits)
next
  case (ResetPassword t pw)
  with assms show ?thesis
    by (auto simp: resetPassword_def findOneAndUpdate_def lookup_defs
        split: option.splits prod.splits if_splits)
next
  case (PushSubmissionById i s)
  with assms show ?thesis
    by (auto simp: pushSubmissionById_def findOneAndUpdate_def lookup_defs split: option.splits)
qed

lemma empty_lookup_silent:
  assumes "\<not> detects c op st" and "\<forall>o'. store_fault c o' = None" and "plain c op"
    and "empty_lookup c op st"
  shows "fst (run c op st) = Done None False"
proof (cases op)
  case (GetByToken t)
  with assms show ?thesis
    by (auto simp: UserController_getByToken_def getByToken_def lookup_defs
        split: option.splits prod.splits)
next
  case (GetById i)
  with assms show ?thesis
    by (auto simp: getById_def lookup_defs)
next
  case (UpdateProfileById i p)
  with assms show ?thesis
    by (auto simp: updateProfileById_def findOneAndUpdate_def matches_id_verified)
next
  case (VerifyByToken t)
  with assms show ?thesis
    by (auto simp: verifyByToken_def findOneAndUpdate_def Let_def split: prod.splits)
next
  case (SendVerificationEmailById i)
  with assms show ?thesis
    by (auto simp: sendVerificationEmailById_def findOne_def matches_id_unverified)
next
  case (SendPasswordResetEmail e)
  with assms show ?thesis
    by (auto simp: sendPasswordResetEmail_def generateTempAuthToken_def project_def lookup_defs
        Let_def split: option.splits)
next
  case (ResetPassword t pw)
  with assms show ?thesis
    by (cases t; cases pw)
      (auto simp: resetPassword_def findOneAndUpdate_def falsy_def too_short_def lookup_defs
        split: option.splits prod.splits)
next
  case (PushSubmissionById i s)
  with assms show ?thesis
    by (auto simp: pushSubmissionById_def findOneAndUpdate_def lookup_defs)
qed (use assms in simp_all)

lemma verifier_error_handed_on:
  assumes "\<not> detects c (ResetPassword (Some t) pw) st"
    and "fst (verifyTempAuthToken c t) = Some x"
  shows "fst (run c (ResetPassword (Some t) pw) st) = Done (Some x) False"
  using assms
  by (cases pw) (auto simp: resetPassword_def falsy_def too_short_def split: prod.splits)

lemma mailer_answer_handed_on:
  assumes "lookup_answers c e" and "stored_by_email st e = Some u"
  shows "fst (run c (SendPasswordResetEmail e) st) =
           Done (fst (mailerAnswer c e (tempTokenFor c (uid u))))
                (snd (mailerAnswer c e (tempTokenFor c (uid u))) \<noteq> None)"
  using assms
  by (auto simp: sendPasswordResetEmail_def generateTempAuthToken_def project_def lookup_defs
      Let_def split: prod.splits)

text \<open>
  C7, amended. For every operation of the controller: a failure the controller detects by
  its own checks reaches the callback as an error with a message and no result; in every
  operation but \<open>changePassword\<close>, an error with which the store answers an operation
  it was asked for reaches the callback unchanged as its error argument; \<open>resetPassword\<close>
  hands on an error of its token verifier, and \<open>sendPasswordResetEmail\<close> the answer of
  the mailer, in the same way. The callback gets neither an error nor a result only when a
  lookup came back empty, and a plain call with nothing detected, an answering store and
  an empty lookup does end that way: \<open>updateProfileById\<close> for a user that does not
  match and \<open>sendPasswordResetEmail\<close> for an unknown email among them.
\<close>

theorem failures_reported:
  "(detects c op st \<longrightarrow> reports_message (fst (run c op st))) \<and>
   (\<not> is_changePassword op \<longrightarrow>
      (\<forall>o' \<in> set (asked c op st). \<forall>x. store_fault c o' = Some x \<longrightarrow>
         error_of (fst (run c op st)) = Some x)) \<and>
   (\<not> detects c (ResetPassword (Some t) pw) st \<and> fst (verifyTempAuthToken c t) = Some x \<longrightarrow>
      fst (run c (ResetPassword (Some t) pw) st) = Done (Some x) False) \<and>
   (lookup_answers c e \<and> stored_by_email st e = Some u \<longrightarrow>
      fst (run c (SendPasswordResetEmail e) st) =
        Done (fst (mailerAnswer c e (tempTokenFor c (uid u))))
             (snd (mailerAnswer c e (tempTokenFor c (uid u))) \<noteq> None)) \<and>
   (fst (run c op st) = Done None False \<longrightarrow> empty_lookup c op st) \<and>
   (\<not> detects c op st \<and> (\<forall>o'. store_fault c o' = None) \<and> plain c op \<and> empty_lookup c op st \<longrightarrow>
      fst (run c op st) = Done None False)"
proof (intro conjI impI ballI allI)
  show "reports_message (fst (run c op st))" if "detects c op st"
    using that by (rule detects_reported)
  show "error_of (fst (run c op st)) = Some x'"
    if "\<not> is_changePassword op" "o' \<in> set (asked c op st)" "store_fault c o' = Some x'" for o' x'
    using that by (rule store_error_handed_on)
  show "fst (run c (ResetPassword (Some t) pw) st) = Done (Some x) False"
    if "\<not> detects c (ResetPassword (Some t) pw) st \<and> fst (verifyTempAuthToken c t) = Some x"
    using that by (blast intro: verifier_error_handed_on)
  show "fst (run c (SendPasswordResetEmail e) st) =
        Done (fst (mailerAnswer c e (tempTokenFor c (uid u))))
             (snd (mailerAnswer c e (tempTokenFor c (uid u))) \<noteq> None)"
    if "lookup_answers c e \<and> stored_by_email st e = Some u"
    using that by (blast intro: mailer_answer_handed_on)
  show "empty_lookup c op st" if "fst (run c op st) = Done None False"
    using that by (rule silent_only_on_empty_lookup)
  show "fst (run c op st) = Done None False"
    if "\<not> detects c op st \<and> (\<forall>o'. store_fault c o' = None) \<and> plain c op \<and> empty_lookup c op st"
    using that by (blast intro: empty_lookup_silent)
qed

theorem failures_reported_witness:
  "detects demo (CreateUser JNull (Some ''secret'')) ann_state \<and>
   reports_message (fst (run demo (CreateUser JNull (Some ''secret'')) ann_state)) \<and>
   detects demo (LoginWithPassword ''Ann@Example.org'' (Some ''Secret'')) ann_state \<and>
   reports_message (fst (run demo (LoginWithPassword ''Ann@Example.org'' (Some ''Secret'')) ann_state)) \<and>
   detects demo (UpdateProfileById 0 \<lparr>name = []\<rparr>) ann_state \<and>
   reports_message (fst (run demo (UpdateProfileById 0 \<lparr>name = []\<rparr>) ann_state)) \<and>
   detects demo (ChangePassword (Some 0) (Some ''Secret'') (Some ''another'')) ann_state \<and>
   reports_message (fst (run demo (ChangePassword (Some 0) (Some ''Secret'') (Some ''another'')) ann_state)) \<and>
   \<not> is_changePassword (LoginWithPassword ''Ann@Example.org'' (Some ''secret'')) \<and>
   FindOne (Eq_email ''ann@example.org'') \<in>
     set (asked down (LoginWithPassword ''Ann@Example.org'' (Some ''secret'')) ann_state) \<and>
   store_fault down (FindOne (Eq_email ''ann@example.org'')) = Some (Upstream ''MongoError'') \<and>
   error_of (fst (run down (LoginWithPassword ''Ann@Example.org'' (Some ''secret'')) ann_state)) =
     Some (Upstream ''MongoError'') \<and>
   Save (bob\<lparr>uid := 1, password := Some ''#secret'', verified := False, profile := None,
             completedProfile := False, teamCode := None\<rparr>) \<in>
     set (asked down_on_save (CreateUser (JString ''bob@example.org'') (Some ''secret'')) ann_state) \<and>
   error_of (fst (run down_on_save (CreateUser (JString ''bob@example.org'') (Some ''secret'')) ann_state)) =
     Some (Upstream ''MongoError'') \<and>
   FindOneAndUpdate (Eq_id 0) [Set_password ''#another''] \<in>
     set (asked down_behind_verifier (ResetPassword (Some ''token'') (Some ''another'')) ann_state) \<and>
   error_of (fst (run down_behind_verifier (ResetPassword (Some ''token'') (Some ''another'')) ann_state)) =
     Some (Upstream ''MongoError'') \<and>
   \<not> detects demo (ResetPassword (Some ''token'') (Some ''another'')) ann_state \<and>
   fst (verifyTempAuthToken demo ''token'') = Some (Upstream ''JsonWebTokenError'') \<and>
   fst (run demo (ResetPassword (Some ''token'') (Some ''another'')) ann_state) =
     Done (Some (Upstream ''JsonWebTokenError'')) False \<and>
   lookup_answers demo ''Ann@Example.org'' \<and>
   stored_by_email ann_state ''Ann@Example.org'' = Some ann \<and>
   fst (run demo (SendPasswordResetEmail ''Ann@Example.org'') ann_state) = Done None True \<and>
   fst (run demo (PushSubmissionById 7 \<lparr>sub_code = None, sub_title = None\<rparr>) ann_state) =
     Done None False \<and>
   empty_lookup demo (PushSubmissionById 7 \<lparr>sub_code = None, sub_title = None\<rparr>) ann_state \<and>
   \<not> detects demo (UpdateProfileById 0 \<lparr>name = ''Ann''\<rparr>) ann_state \<and>
   (\<forall>o'. store_fault demo o' = None) \<and>
   plain demo (UpdateProfileById 0 \<lparr>name = ''Ann''\<rparr>) \<and>
   empty_lookup demo (UpdateProfileById 0 \<lparr>name = ''Ann''\<rparr>) ann_state \<and>
   fst (run demo (UpdateProfileById 0 \<lparr>name = ''Ann''\<rparr>) ann_state) = Done None False \<and>
   \<not> detects demo (SendPasswordResetEmail ''bob@example.org'') ann_state \<and>
   plain demo (SendPasswordResetEmail ''bob@example.org'') \<and>
   empty_lookup demo (SendPasswordResetEmail ''bob@example.org'') ann_state \<and>
   fst (run demo (SendPasswordResetEmail ''bob@example.org'') ann_state) = Done None False"
proof -
  note own = failures_reported [THEN conjunct1, rule_format]
  note store = failures_reported [THEN conjunct2, THEN conjunct1, rule_format]
  note verifier = failures_reported [THEN conjunct2, THEN conjunct2, THEN conjunct1, rule_format]
  note mailer = failures_reported [THEN conjunct2, THEN conjunct2, THEN conjunct2, THEN conjunct1,
      rule_format]
  note only = failures_reported [THEN conjunct2, THEN conjunct2, THEN conjunct2, THEN conjunct2,
      THEN conjunct1, rule_format]
  note silent = failures_reported [THEN conjunct2, THEN conjunct2, THEN conjunct2, THEN conjunct2,
      THEN conjunct2, rule_format]
  let ?new_bob = "bob\<lparr>uid := 1, password := Some ''#secret'', verified := False, profile := None,
             completedProfile := False, teamCode := None\<rparr>"
  have d1: "detects demo (CreateUser JNull (Some ''secret'')) ann_state"
    and d2: "detects demo (LoginWithPassword ''Ann@Example.org'' (Some ''Secret'')) ann_state"
    and d3: "detects demo (UpdateProfileById 0 \<lparr>name = []\<rparr>) ann_state"
    and d4: "detects demo (ChangePassword (Some 0) (Some ''Secret'') (Some ''another'')) ann_state"
    by code_simp+
  have s0: "\<not> is_changePassword (LoginWithPassword ''Ann@Example.org'' (Some ''secret''))"
    and s0': "\<not> is_changePassword (CreateUser (JString ''bob@example.org'') (Some ''secret''))"
    and s0'': "\<not> is_changePassword (ResetPassword (Some ''token'') (Some ''another''))"
    by simp_all
  have s1: "FindOne (Eq_email ''ann@example.org'') \<in>
      set (asked down (LoginWithPassword ''Ann@Example.org'' (Some ''secret'')) ann_state)"
    and s2: "Save ?new_bob \<in>
      set (asked down_on_save (CreateUser (JString ''bob@example.org'') (Some ''secret'')) ann_state)"
    and s3: "FindOneAndUpdate (Eq_id 0) [Set_password ''#another''] \<in>
      set (asked down_behind_verifier (ResetPassword (Some ''token'') (Some ''another'')) ann_state)"
    by code_simp+
  have f1: "store_fault down (FindOne (Eq_email ''ann@example.org'')) = Some (Upstream ''MongoError'')"
    and f2: "store_fault down_on_save (Save ?new_bob) = Some (Upstream ''MongoError'')"
    and f3: "store_fault down_behind_verifier (FindOneAndUpdate (Eq_id 0) [Set_password ''#another'']) =
      Some (Upstream ''MongoError'')"
    by (simp_all add: down_def down_on_save_def down_behind_verifier_def)
  have v1: "\<not> detects demo (ResetPassword (Some ''token'') (Some ''another'')) ann_state"
    and v2: "fst (verifyTempAuthToken demo ''token'') = Some (Upstream ''JsonWebTokenError'')"
    by code_simp+
  have m1: "lookup_answers demo ''Ann@Example.org''"
    and m2: "stored_by_email ann_state ''Ann@Example.org'' = Some ann"
    and m3: "Done (fst (mailerAnswer demo ''Ann@Example.org'' (tempTokenFor demo (uid ann))))
      (snd (mailerAnswer demo ''Ann@Example.org'' (tempTokenFor demo (uid ann))) \<noteq> None) = Done None True"
    by code_simp+
  have o1: "fst (run demo (PushSubmissionById 7 \<lparr>sub_code = None, sub_title = None\<rparr>) ann_state) =
      Done None False"
    by code_simp
  have answers: "\<forall>o'. store_fault demo o' = None"
    by (simp add: demo_def)
  have e1: "\<not> detects demo (UpdateProfileById 0 \<lparr>name = ''Ann''\<rparr>) ann_state"
    and e2: "plain demo (UpdateProfileById 0 \<lparr>name = ''Ann''\<rparr>)"
    and e3: "empty_lookup demo (UpdateProfileById 0 \<lparr>name = ''Ann''\<rparr>) ann_state"
    and e4: "\<not> detects demo (SendPasswordResetEmail ''bob@example.org'') ann_state"
    and e5: "plain demo (SendPasswordResetEmail ''bob@example.org'')"
    and e6: "empty_lookup demo (SendPasswordResetEmail ''bob@example.org'') ann_state"
    by code_simp+
  note facts = d1 own [OF d1] d2 own [OF d2] d3 own [OF d3] d4 own [OF d4]
    s0 s1 f1 store [OF s0 s1 f1] s2 store [OF s0' s2 f2] s3 store [OF s0'' s3 f3]
    v1 v2 verifier [OF conjI [OF v1 v2]]
    m1 m2 mailer [OF conjI [OF m1 m2], unfolded m3]
    o1 only [OF o1]
    e1 answers e2 e3 silent [OF conjI [OF e1 conjI [OF answers conjI [OF e2 e3]]]]
    e4 e5 e6 silent [OF conjI [OF e4 conjI [OF answers conjI [OF e5 e6]]]]
  show ?thesis
    by (intro conjI facts)
qed

end
